theory Spec2Isabelle
  imports
    Main
    "HOL-Library.Char_ord"
    "HOL-Library.List_Lexorder"
    "HOL-Library.Multiset"
    "HOL-Library.Product_Lexorder"
    "HOL-Library.Word"
begin

section \<open>The canonical schema model (schema.h)\<close>

text \<open>
  Strings are \<open>std::string\<close>: byte sequences compared lexicographically, byte by byte,
  which is the order of \<^typ>\<open>char list\<close> given by \<open>Char_ord\<close> and \<open>List_Lexorder\<close>.
  \<open>size_t\<close> values (sizes, scales, column indices) are only stored, copied and compared
  for equality by the functions below, so they are natural numbers here.
\<close>

type_synonym ColumnIndices = "nat list"

definition BLOB :: string where "BLOB = ''BLOB''"

definition TEXT :: string where "TEXT = ''TEXT''"

definition VCHR :: string where "VCHR = ''VARCHAR''"

definition FCHR :: string where "FCHR = ''CHAR''"

definition JSON :: string where "JSON = ''JSON''"

definition UUID :: string where "UUID = ''UUID''"

definition BOOL :: string where "BOOL = ''BOOL''"

definition SINT :: string where "SINT = ''INT''"

definition UINT :: string where "UINT = ''INT UNSIGNED''"

definition REAL :: string where "REAL = ''REAL''"

definition DECI :: string where "DECI = ''DECIMAL''"

definition DATE :: string where "DATE = ''DATE''"

definition TIME :: string where "TIME = ''TIME''"

definition DTTM :: string where "DTTM = ''DATETIME''"

definition SPAT :: string where "SPAT = ''SPATIAL''"

definition ENUM :: string where "ENUM = ''ENUM''"

definition UNKN :: string where "UNKN = ''UNKNOWN''"

lemmas ColumnTypes_defs =
  BLOB_def TEXT_def VCHR_def FCHR_def JSON_def UUID_def BOOL_def SINT_def UINT_def
  REAL_def DECI_def DATE_def TIME_def DTTM_def SPAT_def ENUM_def UNKN_def

datatype DefaultType = no_default | sequence | default_value | default_expression

type_synonym flag_t = "32 word"

text \<open>The flags of \<open>namespace ColumnFlags\<close>, bits of a \<open>uint32_t\<close>.\<close>

definition nothing :: flag_t where "nothing = 0"
definition mysql_timestamp :: flag_t where "mysql_timestamp = 1"
definition mysql_on_update_timestamp :: flag_t where "mysql_on_update_timestamp = 2"
definition time_zone :: flag_t where "time_zone = 4"
definition simple_geometry :: flag_t where "simple_geometry = 8"
definition identity_generated_always :: flag_t where "identity_generated_always = 16"

record Column =
  name :: string
  nullable :: bool
  column_type :: string
  size :: nat
  scale :: nat
  default_type :: DefaultType
  default_value :: string
  flags :: flag_t
  type_restriction :: string
  reference_system :: string
  enumeration_values :: "string list"
  db_type_def :: string
  filter_expression :: string

text \<open>\<open>Column::operator ==\<close>: every field but \<open>db_type_def\<close> and \<open>filter_expression\<close>.\<close>

definition Column_eq :: "Column \<Rightarrow> Column \<Rightarrow> bool" where
  "Column_eq this other \<longleftrightarrow>
     Column.name this = Column.name other \<and>
     nullable this = nullable other \<and>
     column_type this = column_type other \<and>
     Column.size this = Column.size other \<and>
     scale this = scale other \<and>
     default_type this = default_type other \<and>
     Column.default_value this = Column.default_value other \<and>
     flags this = flags other \<and>
     type_restriction this = type_restriction other \<and>
     reference_system this = reference_system other \<and>
     enumeration_values this = enumeration_values other"

text \<open>
  The two constructors of \<open>Column\<close>: the one taking the fields (its trailing arguments
  default to \<open>0\<close>, \<open>0\<close>, \<open>ColumnFlags::nothing\<close> and empty strings in the source)
  and the default constructor.
\<close>

definition Column_of ::
  "string \<Rightarrow> bool \<Rightarrow> DefaultType \<Rightarrow> string \<Rightarrow> string \<Rightarrow> nat \<Rightarrow> nat \<Rightarrow> flag_t \<Rightarrow>
   string \<Rightarrow> string \<Rightarrow> string \<Rightarrow> Column" where
  "Column_of name' nullable' default_type' default_value' column_type' size' scale' flags'
     type_restriction' reference_system' db_type_def' =
     \<lparr>Column.name = name', nullable = nullable', column_type = column_type', size = size',
      scale = scale', default_type = default_type', default_value = default_value',
      flags = flags', type_restriction = type_restriction',
      reference_system = reference_system', enumeration_values = [],
      db_type_def = db_type_def', filter_expression = []\<rparr>"

definition Column_default :: Column where
  "Column_default =
     \<lparr>Column.name = [], nullable = True, column_type = [], size = 0, scale = 0,
      default_type = no_default, default_value = [], flags = nothing,
      type_restriction = [], reference_system = [], enumeration_values = [],
      db_type_def = [], filter_expression = []\<rparr>"

type_synonym Columns = "Column list"

datatype KeyType = unique_key | standard_key | spatial_key

text \<open>The enumerators' values, which order \<open>KeyType\<close> in \<open>Key::operator <\<close>.\<close>

fun KeyType_value :: "KeyType \<Rightarrow> nat" where
  "KeyType_value unique_key = 0"
| "KeyType_value standard_key = 1"
| "KeyType_value spatial_key = 2"

record Key =
  name :: string
  key_type :: KeyType
  columns :: ColumnIndices

definition unique :: "Key \<Rightarrow> bool" where
  "unique k \<longleftrightarrow> key_type k = unique_key"

definition spatial :: "Key \<Rightarrow> bool" where
  "spatial k \<longleftrightarrow> key_type k = spatial_key"

text \<open>The constructor \<open>Key (name, key_type)\<close>; its column list starts empty.\<close>

definition Key_of :: "string \<Rightarrow> KeyType \<Rightarrow> Key" where
  "Key_of name' key_type' = \<lparr>Key.name = name', key_type = key_type', columns = []\<rparr>"

text \<open>\<open>Key::operator <\<close>: by key type first, then by name.\<close>

definition Key_less :: "Key \<Rightarrow> Key \<Rightarrow> bool" where
  "Key_less this other \<longleftrightarrow>
     (if key_type this \<noteq> key_type other
      then KeyType_value (key_type this) < KeyType_value (key_type other)
      else Key.name this < Key.name other)"

definition Key_eq :: "Key \<Rightarrow> Key \<Rightarrow> bool" where
  "Key_eq this other \<longleftrightarrow>
     Key.name this = Key.name other \<and> key_type this = key_type other \<and>
     Key.columns this = Key.columns other"

type_synonym Keys = "Key list"

datatype PrimaryKeyType = no_available_key | explicit_primary_key | suitable_unique_key

record Table =
  name :: string
  columns :: Columns
  primary_key_columns :: ColumnIndices
  primary_key_type :: PrimaryKeyType
  keys :: Keys
  where_conditions :: string

text \<open>The constructor \<open>Table (name)\<close>: no columns, no keys, no available primary key.\<close>

definition Table_of :: "string \<Rightarrow> Table" where
  "Table_of name' =
     \<lparr>Table.name = name', columns = [], primary_key_columns = [],
      primary_key_type = no_available_key, keys = [], where_conditions = []\<rparr>"

text \<open>
  \<open>Table::same_primary_key_as\<close>. \<open>std::equal\<close> over the first \<open>this_explicit_columns\<close>
  entries of both vectors; it is only reached with a non-empty range when both tables
  have an explicit primary key of the same length.
\<close>

definition same_primary_key_as :: "Table \<Rightarrow> Table \<Rightarrow> bool" where
  "same_primary_key_as this other \<longleftrightarrow>
     (let this_explicit_columns =
            (if primary_key_type this = explicit_primary_key
             then length (primary_key_columns this) else 0);
          that_explicit_columns =
            (if primary_key_type other = explicit_primary_key
             then length (primary_key_columns other) else 0)
      in this_explicit_columns = that_explicit_columns \<and>
         take this_explicit_columns (primary_key_columns this) =
         take this_explicit_columns (primary_key_columns other))"

text \<open>\<open>Table::operator ==\<close>; vectors are equal when they have the same length and
  their elements are pairwise equal under the element type's \<open>operator ==\<close>.\<close>

definition Table_eq :: "Table \<Rightarrow> Table \<Rightarrow> bool" where
  "Table_eq this other \<longleftrightarrow>
     Table.name this = Table.name other \<and>
     list_all2 Column_eq (Table.columns this) (Table.columns other) \<and>
     same_primary_key_as this other \<and>
     list_all2 Key_eq (keys this) (keys other)"

text \<open>\<open>Table::operator <\<close>: by name.\<close>

definition Table_less :: "Table \<Rightarrow> Table \<Rightarrow> bool" where
  "Table_less this other \<longleftrightarrow> Table.name this < Table.name other"

type_synonym Tables = "Table list"

record Database =
  tables :: Tables

section \<open>The schema-match engine (schema\_functions.cpp)\<close>

text \<open>
  A thrown exception is the left summand of the result. \<open>columns_list\<close> (declared in
  sql\_functions.h, which renders the names of the indexed columns for a message) is a
  parameter of every function that reaches it.
\<close>

datatype error = schema_mismatch string | runtime_error string

type_synonym columns_list_t = "Columns \<Rightarrow> ColumnIndices \<Rightarrow> string"

definition report_schema_mismatch :: "string \<Rightarrow> error + unit" where
  "report_schema_mismatch err = Inl (schema_mismatch err)"

definition check_column_match :: "Table \<Rightarrow> Column \<Rightarrow> Column \<Rightarrow> error + unit" where
  "check_column_match table from_column to_column = Inr ()"

text \<open>
  An iterator into a vector is the list of the elements from the iterator to the end;
  \<open>find_if (it, end, name_is (n)) == end\<close> is \<open>find\<close> returning \<open>None\<close>.
\<close>

fun check_columns_loop :: "Table \<Rightarrow> Columns \<Rightarrow> Columns \<Rightarrow> error + unit" where
  "check_columns_loop table [] [] = Inr ()"
| "check_columns_loop table [] (to_column # to_rest) =
     report_schema_mismatch
       (''Extra column '' @ Column.name to_column @ '' on table '' @ Table.name table)"
| "check_columns_loop table (from_column # from_rest) [] =
     report_schema_mismatch
       (''Missing column '' @ Column.name from_column @ '' on table '' @ Table.name table)"
| "check_columns_loop table (from_column # from_rest) (to_column # to_rest) =
     (if Column.name to_column = Column.name from_column then
        (case check_column_match table from_column to_column of
           Inl e \<Rightarrow> Inl e
         | Inr _ \<Rightarrow> check_columns_loop table from_rest to_rest)
      else if find (\<lambda>obj. Column.name obj = Column.name from_column) (to_column # to_rest) = None then
        report_schema_mismatch
          (''Missing column '' @ Column.name from_column @ '' on table '' @ Table.name table)
      else if find (\<lambda>obj. Column.name obj = Column.name to_column) (from_column # from_rest) = None then
        report_schema_mismatch
          (''Extra column '' @ Column.name to_column @ '' on table '' @ Table.name table)
      else
        report_schema_mismatch
          (''Misordered column '' @ Column.name from_column @ '' on table '' @ Table.name table @
           '', should have '' @ Column.name to_column @ '' first''))"

definition check_columns_match :: "Table \<Rightarrow> Columns \<Rightarrow> Columns \<Rightarrow> error + unit" where
  "check_columns_match table from_columns to_columns =
     check_columns_loop table from_columns to_columns"

definition check_primary_key_matches ::
  "columns_list_t \<Rightarrow> Table \<Rightarrow> ColumnIndices \<Rightarrow> ColumnIndices \<Rightarrow> error + unit" where
  "check_primary_key_matches columns_list table from_primary_key_columns to_primary_key_columns =
     (if from_primary_key_columns \<noteq> to_primary_key_columns then
        report_schema_mismatch
          (''Mismatching primary key '' @ columns_list (Table.columns table) to_primary_key_columns @
           '' on table '' @ Table.name table @ '', should have '' @
           columns_list (Table.columns table) from_primary_key_columns)
      else Inr ())"

text \<open>
  \<open>check_key_match\<close> compares \<open>from_key.unique\<close> with \<open>to_key.unique\<close>; in schema.h
  \<open>unique\<close> is the accessor \<open>key_type == KeyType::unique_key\<close>.
\<close>

definition check_key_match :: "columns_list_t \<Rightarrow> Table \<Rightarrow> Key \<Rightarrow> Key \<Rightarrow> error + unit" where
  "check_key_match columns_list table from_key to_key =
     (if unique from_key \<noteq> unique to_key then
        report_schema_mismatch
          (''Mismatching unique flag on table '' @ Table.name table @ '' key '' @ Key.name from_key)
      else if Key.columns from_key \<noteq> Key.columns to_key then
        report_schema_mismatch
          (''Mismatching columns '' @ columns_list (Table.columns table) (Key.columns to_key) @
           '' on table '' @ Table.name table @ '' key '' @ Key.name from_key @
           '', should have '' @ columns_list (Table.columns table) (Key.columns from_key))
      else Inr ())"

fun check_keys_loop :: "columns_list_t \<Rightarrow> Table \<Rightarrow> Keys \<Rightarrow> Keys \<Rightarrow> error + unit" where
  "check_keys_loop columns_list table [] [] = Inr ()"
| "check_keys_loop columns_list table [] (to_key # to_rest) =
     report_schema_mismatch
       (''Extra key '' @ Key.name to_key @ '' on table '' @ Table.name table)"
| "check_keys_loop columns_list table (from_key # from_rest) [] =
     report_schema_mismatch
       (''Missing key '' @ Key.name from_key @ '' on table '' @ Table.name table)"
| "check_keys_loop columns_list table (from_key # from_rest) (to_key # to_rest) =
     (if Key.name to_key > Key.name from_key then
        report_schema_mismatch
          (''Missing key '' @ Key.name from_key @ '' on table '' @ Table.name table)
      else if Key.name to_key < Key.name from_key then
        report_schema_mismatch
          (''Extra key '' @ Key.name to_key @ '' on table '' @ Table.name table)
      else
        (case check_key_match columns_list table from_key to_key of
           Inl e \<Rightarrow> Inl e
         | Inr _ \<Rightarrow> check_keys_loop columns_list table from_rest to_rest))"

text \<open>
  \<open>std::sort\<close> is the standard library's: it returns the elements in an order in which
  none is less, by the element type's \<open>operator <\<close>, than one before it, and which of two
  equivalent elements comes first it does not say. So the two calls, on a vector of keys
  and on a vector of tables, are parameters \<open>sort_keys\<close> and \<open>sort_tables\<close> of every function
  that reaches them; what is known of them is stated where it is used, as
  \<open>sorts_keys\<close>, \<open>sorts_tables\<close> and \<open>compares_names_only\<close> below.
\<close>

type_synonym sort_keys_t = "Keys \<Rightarrow> Keys"

type_synonym sort_tables_t = "Tables \<Rightarrow> Tables"

definition check_keys_match ::
  "sort_keys_t \<Rightarrow> columns_list_t \<Rightarrow> Table \<Rightarrow> Keys \<Rightarrow> Keys \<Rightarrow> error + unit" where
  "check_keys_match sort_keys columns_list table from_keys to_keys =
     check_keys_loop columns_list table (sort_keys from_keys) (sort_keys to_keys)"

definition check_table_match ::
  "sort_keys_t \<Rightarrow> columns_list_t \<Rightarrow> Table \<Rightarrow> Table \<Rightarrow> error + unit" where
  "check_table_match sort_keys columns_list from_table to_table =
     (case check_columns_match from_table (Table.columns from_table) (Table.columns to_table) of
        Inl e \<Rightarrow> Inl e
      | Inr _ \<Rightarrow>
     (case check_primary_key_matches columns_list from_table
             (primary_key_columns from_table) (primary_key_columns to_table) of
        Inl e \<Rightarrow> Inl e
      | Inr _ \<Rightarrow> check_keys_match sort_keys columns_list from_table (keys from_table) (keys to_table)))"

fun skip_ignored_tables :: "Tables \<Rightarrow> string set \<Rightarrow> string set \<Rightarrow> Tables" where
  "skip_ignored_tables [] ignore_tables only_tables = []"
| "skip_ignored_tables (table # rest) ignore_tables only_tables =
     (if Table.name table \<in> ignore_tables \<or>
         (only_tables \<noteq> {} \<and> Table.name table \<notin> only_tables)
      then skip_ignored_tables rest ignore_tables only_tables
      else table # rest)"

lemma length_skip_ignored_tables:
  "length (skip_ignored_tables ts ignore_tables only_tables) \<le> length ts"
  by (induction ts) auto

function check_tables_loop ::
  "sort_keys_t \<Rightarrow> columns_list_t \<Rightarrow> Tables \<Rightarrow> Tables \<Rightarrow> string set \<Rightarrow> string set \<Rightarrow> error + unit" where
  "check_tables_loop sort_keys columns_list [] [] ignore_tables only_tables = Inr ()"
| "check_tables_loop sort_keys columns_list [] (to_table # to_rest) ignore_tables only_tables =
     report_schema_mismatch (''Extra table '' @ Table.name to_table)"
| "check_tables_loop sort_keys columns_list (from_table # from_rest) [] ignore_tables only_tables =
     report_schema_mismatch (''Missing table '' @ Table.name from_table)"
| "check_tables_loop sort_keys columns_list (from_table # from_rest) (to_table # to_rest)
       ignore_tables only_tables =
     (if Table.name to_table > Table.name from_table then
        report_schema_mismatch (''Missing table '' @ Table.name from_table)
      else if Table.name to_table < Table.name from_table then
        report_schema_mismatch (''Extra table '' @ Table.name to_table)
      else
        (case check_table_match sort_keys columns_list from_table to_table of
           Inl e \<Rightarrow> Inl e
         | Inr _ \<Rightarrow>
             check_tables_loop sort_keys columns_list
               (skip_ignored_tables from_rest ignore_tables only_tables)
               (skip_ignored_tables to_rest ignore_tables only_tables)
               ignore_tables only_tables))"
  by pat_completeness auto
termination
proof (relation "measure (\<lambda>(sk, cl, from_tables, to_tables, ign, only). length from_tables)")
  show "wf (measure (\<lambda>(sk, cl, from_tables, to_tables, ign, only). length from_tables))"
    by simp
next
  fix sort_keys :: sort_keys_t
  fix columns_list :: columns_list_t
  fix from_table to_table :: Table
  fix from_rest to_rest :: Tables
  fix ignore_tables only_tables :: "string set"
  have "length (skip_ignored_tables from_rest ignore_tables only_tables) \<le> length from_rest"
    by (rule length_skip_ignored_tables)
  then show "((sort_keys, columns_list, skip_ignored_tables from_rest ignore_tables only_tables,
        skip_ignored_tables to_rest ignore_tables only_tables, ignore_tables, only_tables),
       (sort_keys, columns_list, from_table # from_rest, to_table # to_rest, ignore_tables,
        only_tables))
      \<in> measure (\<lambda>(sk, cl, from_tables, to_tables, ign, only). length from_tables)"
    by simp
qed

definition check_tables_match ::
  "sort_tables_t \<Rightarrow> sort_keys_t \<Rightarrow> columns_list_t \<Rightarrow> Tables \<Rightarrow> Tables \<Rightarrow> string set \<Rightarrow> string set \<Rightarrow> error + unit" where
  "check_tables_match sort_tables sort_keys columns_list from_tables to_tables ignore_tables
       only_tables =
     check_tables_loop sort_keys columns_list
       (skip_ignored_tables (sort_tables from_tables) ignore_tables only_tables)
       (skip_ignored_tables (sort_tables to_tables) ignore_tables only_tables)
       ignore_tables only_tables"

definition check_schema_match ::
  "sort_tables_t \<Rightarrow> sort_keys_t \<Rightarrow> columns_list_t \<Rightarrow> Database \<Rightarrow> Database \<Rightarrow>
   string set \<Rightarrow> string set \<Rightarrow> error + unit" where
  "check_schema_match sort_tables sort_keys columns_list from_database to_database
       ignore_tables only_tables =
     check_tables_match sort_tables sort_keys columns_list
       (tables from_database) (tables to_database) ignore_tables only_tables"

section \<open>The PostgreSQL adapter (ks\_postgresql.cpp)\<close>

text \<open>
  \<open>convert_unsupported_database_schema\<close> updates the database in place; the model returns
  the updated database. \<open>convert_unsupported_column\<close> and \<open>convert_unsupported_key\<close> are
  the bodies of its loops over \<open>table.columns\<close> and \<open>table.keys\<close>: four \<open>if\<close> statements
  in sequence, each reading the column as the ones before left it, and one \<open>if\<close> on the
  key; \<open>substr (0, 63)\<close> is \<open>take 63\<close>.
\<close>

definition convert_unsupported_column :: "Column \<Rightarrow> Column" where
  "convert_unsupported_column column0 =
     (let column1 = (if column_type column0 = UINT
                     then column0\<lparr>column_type := SINT\<rparr> else column0);
          column2 = (if column_type column1 = SINT \<and> Column.size column1 = 1
                     then column1\<lparr>Column.size := 2\<rparr> else column1);
          column3 = (if column_type column2 = SINT \<and> Column.size column2 = 3
                     then column2\<lparr>Column.size := 4\<rparr> else column2);
          column4 = (if column_type column3 = TEXT \<or> column_type column3 = BLOB
                     then column3\<lparr>Column.size := 0\<rparr> else column3)
      in column4)"

definition convert_unsupported_key :: "Key \<Rightarrow> Key" where
  "convert_unsupported_key k =
     (if length (Key.name k) \<ge> 63 then k\<lparr>Key.name := take 63 (Key.name k)\<rparr> else k)"

definition convert_unsupported_table :: "Table \<Rightarrow> Table" where
  "convert_unsupported_table table =
     table\<lparr>Table.columns := map convert_unsupported_column (Table.columns table),
           keys := map convert_unsupported_key (keys table)\<rparr>"

definition convert_unsupported_database_schema :: "Database \<Rightarrow> Database" where
  "convert_unsupported_database_schema database =
     database\<lparr>tables := map convert_unsupported_table (tables database)\<rparr>"

text \<open>
  \<open>escape_string_value\<close> and \<open>append_escaped_column_value_to\<close> escape through the
  database connection (\<open>PQescapeStringConn\<close>, \<open>PQescapeByteaConn\<close>), and the \<open>to_string\<close>
  overload for \<open>DefaultType\<close> is declared in another file: the three are parameters of
  \<open>column_default\<close>. \<open>append_escaped_column_value_to result column value\<close> returns the
  string \<open>result\<close> with the escaped value appended, or the exception it throws (the
  spatial case takes \<open>value.substr (4)\<close>).

  In the \<open>switch\<close>, the case \<open>default_expression\<close> appends the default value and has no
  \<open>break\<close>: control falls into the \<open>default:\<close> label, which throws.
\<close>

definition column_sequence_name :: "Table \<Rightarrow> Column \<Rightarrow> string" where
  "column_sequence_name table column = Table.name table @ ''_'' @ Column.name column @ ''_seq''"

definition column_default ::
  "(string \<Rightarrow> string) \<Rightarrow> (string \<Rightarrow> Column \<Rightarrow> string \<Rightarrow> error + string) \<Rightarrow>
   (DefaultType \<Rightarrow> string) \<Rightarrow> Table \<Rightarrow> Column \<Rightarrow> error + string" where
  "column_default escape_string_value append_escaped_column_value_to to_string table column =
     (let result = '' DEFAULT '' in
      case default_type column of
        no_default \<Rightarrow> Inr (result @ ''NULL'')
      | sequence \<Rightarrow>
          Inr (result @ ''nextval('' @ [CHR 0x27] @
               escape_string_value (column_sequence_name table column) @
               [CHR 0x27] @ ''::regclass)'')
      | DefaultType.default_value \<Rightarrow>
          (if column_type column = BOOL \<or> column_type column = SINT \<or>
              column_type column = UINT \<or> column_type column = REAL \<or>
              column_type column = DECI
           then Inr (result @ Column.default_value column)
           else append_escaped_column_value_to result column (Column.default_value column))
      | default_expression \<Rightarrow>
          (let result = result @ Column.default_value column in
           Inl (runtime_error
             (''Don't know how to express default of '' @ Column.name column @ '' ('' @
              to_string (default_type column) @ '')''))))"

section \<open>Protocol versions and the to endpoint (protocol\_versions.h, sync\_to.h)\<close>



definition LAST_FILTERS_AFTER_SNAPSHOT_PROTOCOL_VERSION :: int where
  "LAST_FILTERS_AFTER_SNAPSHOT_PROTOCOL_VERSION = 7"

definition LAST_LEGACY_SCHEMA_FORMAT_VERSION :: int where
  "LAST_LEGACY_SCHEMA_FORMAT_VERSION = 7"

definition FIRST_IDLE_COMMAND_VERSION :: int where
  "FIRST_IDLE_COMMAND_VERSION = 8"

definition FIRST_BLAKE3_VERSION :: int where
  "FIRST_BLAKE3_VERSION = 9"




section \<open>Notions used in the statements\<close>

text \<open>
  What \<open>std::sort\<close> promises of its result: a permutation of the vector in which no
  element is less, by \<open>operator <\<close>, than an element before it.
\<close>

definition sorts_tables :: "sort_tables_t \<Rightarrow> bool" where
  "sorts_tables sort_tables \<longleftrightarrow>
     (\<forall>ts. mset (sort_tables ts) = mset ts \<and>
           sorted_wrt (\<lambda>a b. \<not> Table_less b a) (sort_tables ts))"

definition sorts_keys :: "sort_keys_t \<Rightarrow> bool" where
  "sorts_keys sort_keys \<longleftrightarrow>
     (\<forall>ks. mset (sort_keys ks) = mset ks \<and>
           sorted_wrt (\<lambda>a b. \<not> Key_less b a) (sort_keys ks))"

text \<open>
  \<open>std::sort\<close> reads the tables through \<open>Table::operator <\<close> only, which reads their names
  only. On two vectors whose tables have the same names position by position it
  therefore makes the same moves: tables that stood at the same position before stand
  at the same position after. So a relation between tables that implies equal names,
  when it holds position by position between two vectors, holds position by position
  between the sorted vectors.
\<close>

definition compares_names_only :: "sort_tables_t \<Rightarrow> bool" where
  "compares_names_only sort_tables \<longleftrightarrow>
     (\<forall>R xs ys. (\<forall>a b. R a b \<longrightarrow> Table.name a = Table.name b) \<longrightarrow>
        list_all2 R xs ys \<longrightarrow> list_all2 R (sort_tables xs) (sort_tables ys))"

text \<open>
  Insertion sort on the name, and on the pair (key type, name), are procedures of this
  kind; they stand for the two parameters in the closed examples.
\<close>

definition stable_sort_tables :: sort_tables_t where
  "stable_sort_tables ts = sort_key Table.name ts"

definition stable_sort_keys :: sort_keys_t where
  "stable_sort_keys ks = sort_key (\<lambda>k. (KeyType_value (key_type k), Key.name k)) ks"

text \<open>
  The tables that \<open>skip_ignored_tables\<close> does not pass over: not in \<open>ignore_tables\<close>, and
  in \<open>only_tables\<close> when that set is not empty.
\<close>

definition filter_tables :: "string set \<Rightarrow> string set \<Rightarrow> Tables \<Rightarrow> Tables" where
  "filter_tables ignore_tables only_tables ts =
     filter (\<lambda>t. \<not> (Table.name t \<in> ignore_tables \<or>
                      (only_tables \<noteq> {} \<and> Table.name t \<notin> only_tables))) ts"

text \<open>
  Two columns, two tables, two databases that are identical except for \<open>db_type_def\<close>
  strings: every other field of every column, every other field of every table, and
  the number and order of columns and tables are the same.
\<close>

definition same_column_but_db_type_def :: "Column \<Rightarrow> Column \<Rightarrow> bool" where
  "same_column_but_db_type_def c c' \<longleftrightarrow> c' = c\<lparr>db_type_def := db_type_def c'\<rparr>"

definition same_table_but_db_type_def :: "Table \<Rightarrow> Table \<Rightarrow> bool" where
  "same_table_but_db_type_def t t' \<longleftrightarrow>
     t' = t\<lparr>Table.columns := Table.columns t'\<rparr> \<and>
     list_all2 same_column_but_db_type_def (Table.columns t) (Table.columns t')"

definition same_database_but_db_type_def :: "Database \<Rightarrow> Database \<Rightarrow> bool" where
  "same_database_but_db_type_def db db' \<longleftrightarrow>
     list_all2 same_table_but_db_type_def (tables db) (tables db')"

section \<open>Example schemas\<close>

text \<open>
  Modelled from the spec: \<open>columns_list\<close> of sql\_functions.h is not among the sources,
  and the spec says only that a message names the column list. This rendering, the
  names of the indexed columns in parentheses separated by commas, stands for the
  parameter in the closed examples; no general statement depends on it.
\<close>

fun column_names_at :: "Columns \<Rightarrow> ColumnIndices \<Rightarrow> string list" where
  "column_names_at cols [] = []"
| "column_names_at cols (i # rest) =
     (if i < length cols then Column.name (cols ! i) else ''?'') # column_names_at cols rest"

fun join_names :: "string list \<Rightarrow> string" where
  "join_names [] = []"
| "join_names [n] = n"
| "join_names (n # m # rest) = n @ '', '' @ join_names (m # rest)"

definition columns_list_names :: columns_list_t where
  "columns_list_names cols indices = ''('' @ join_names (column_names_at cols indices) @ '')''"

text \<open>A table T of two integer columns, x and y.\<close>

definition column_x :: Column where
  "column_x = Column_of ''x'' True no_default [] SINT 4 0 nothing [] [] []"

definition column_y :: Column where
  "column_y = Column_of ''y'' True no_default [] SINT 4 0 nothing [] [] []"

definition table_T_from :: Table where
  "table_T_from = (Table_of ''T'')\<lparr>Table.columns := [column_x, column_y]\<rparr>"

text \<open>
  Two tables named \<open>orders\<close> with one column \<open>total\<close> and one key on it; the two columns
  differ in every attribute but the name.
\<close>

definition total_from :: Column where
  "total_from = Column_of ''total'' True no_default [] SINT 4 0 nothing [] [] []"

definition total_to :: Column where
  "total_to =
     (Column_of ''total'' False DefaultType.default_value ''0.00'' DECI 10 2 mysql_timestamp
        ''restricted'' ''4326'' ''numeric(10,2)'')\<lparr>enumeration_values := [''a'', ''b'']\<rparr>"

definition orders_from :: Table where
  "orders_from =
     (Table_of ''orders'')\<lparr>Table.columns := [total_from], primary_key_columns := [0],
        keys := [(Key_of ''by_total'' standard_key)\<lparr>Key.columns := [0]\<rparr>]\<rparr>"

definition orders_to :: Table where
  "orders_to = orders_from\<lparr>Table.columns := [total_to]\<rparr>"

text \<open>
  Two tables \<open>events\<close> whose primary key is a suitable unique key, on x in one and on y
  in the other, and which are otherwise the same.
\<close>

definition surrogate_a :: Table where
  "surrogate_a =
     (Table_of ''events'')\<lparr>Table.columns := [column_x, column_y], primary_key_columns := [0],
        primary_key_type := suitable_unique_key\<rparr>"

definition surrogate_b :: Table where
  "surrogate_b = surrogate_a\<lparr>primary_key_columns := [1]\<rparr>"

text \<open>
  Two databases with one table \<open>places\<close>, whose column \<open>area\<close> is of type \<open>UNKNOWN\<close> with
  \<open>db_type_def\<close> "geography" in one and "hstore" in the other.
\<close>

definition area_geography :: Column where
  "area_geography = Column_of ''area'' True no_default [] UNKN 0 0 nothing [] [] ''geography''"

definition area_hstore :: Column where
  "area_hstore = area_geography\<lparr>db_type_def := ''hstore''\<rparr>"

definition places_geography :: Database where
  "places_geography =
     \<lparr>tables = [(Table_of ''places'')\<lparr>Table.columns := [area_geography]\<rparr>]\<rparr>"

definition places_hstore :: Database where
  "places_hstore =
     \<lparr>tables = [(Table_of ''places'')\<lparr>Table.columns := [area_hstore]\<rparr>]\<rparr>"

text \<open>
  Two databases with the tables \<open>regions\<close> and \<open>places\<close>. In the first both tables hold
  the very same column \<open>area\<close>; in the second the column of \<open>places\<close> has another
  \<open>db_type_def\<close> and the column of \<open>regions\<close> has not.
\<close>

definition atlas_geography :: Database where
  "atlas_geography =
     \<lparr>tables = [(Table_of ''regions'')\<lparr>Table.columns := [area_geography]\<rparr>,
                (Table_of ''places'')\<lparr>Table.columns := [area_geography]\<rparr>]\<rparr>"

definition atlas_mixed :: Database where
  "atlas_mixed =
     \<lparr>tables = [(Table_of ''regions'')\<lparr>Table.columns := [area_geography]\<rparr>,
                (Table_of ''places'')\<lparr>Table.columns := [area_hstore]\<rparr>]\<rparr>"










text \<open>
  A column \<open>created_at\<close> of type \<open>DATETIME\<close> whose default is the expression
  \<open>CURRENT_TIMESTAMP\<close>.
\<close>

definition created_at :: Column where
  "created_at =
     Column_of ''created_at'' False default_expression ''CURRENT_TIMESTAMP'' DTTM 0 0 nothing
       [] [] []"

section \<open>The sorted vectors\<close>

text \<open>
  The two insertion sorts meet what is asked of \<open>std::sort\<close>. Where no two tables have
  the same name (no two keys the same type and name), which is what one schema of a
  database gives, a sorted permutation is unique: every procedure that meets
  \<open>sorts_tables\<close> (\<open>sorts_keys\<close>) returns the list the insertion sort returns.
\<close>

lemma KeyType_value_inject: "KeyType_value a = KeyType_value b \<longleftrightarrow> a = b"
  by (cases a; cases b) simp_all

lemma Key_less_order:
  "\<not> Key_less b a \<longleftrightarrow>
   (KeyType_value (key_type a), Key.name a) \<le> (KeyType_value (key_type b), Key.name b)"
  by (auto simp: Key_less_def less_eq_prod_def KeyType_value_inject)


lemma stable_sort_tables_sorts: "sorts_tables stable_sort_tables"
proof -
  have "sorted_wrt (\<lambda>a b. \<not> Table_less b a) (sort_key Table.name ts)" for ts
  proof -
    have "sorted (map Table.name (sort_key Table.name ts))"
      by (rule sorted_sort_key)
    then show ?thesis
      by (simp add: sorted_map Table_less_def not_less)
  qed
  then show ?thesis
    by (simp add: sorts_tables_def stable_sort_tables_def)
qed

lemma list_all2_insort_key:
  assumes "\<And>a b. R a b \<Longrightarrow> f a = g b"
    and "R x y" and "list_all2 R xs ys"
  shows "list_all2 R (insort_key f x xs) (insort_key g y ys)"
  using assms(3)
proof (induction xs ys rule: list_all2_induct)
  case Nil
  with assms(2) show ?case by simp
next
  case (Cons a xs b ys)
  from assms(1) [OF assms(2)] assms(1) [OF Cons.hyps(1)]
  have "f x \<le> f a \<longleftrightarrow> g y \<le> g b" by simp
  with Cons assms(2) show ?case by simp
qed

lemma list_all2_sort_key:
  assumes "\<And>a b. R a b \<Longrightarrow> f a = g b"
    and "list_all2 R xs ys"
  shows "list_all2 R (sort_key f xs) (sort_key g ys)"
  using assms(2)
proof (induction xs ys rule: list_all2_induct)
  case Nil
  show ?case by simp
next
  case (Cons a xs b ys)
  then show ?case
    by (simp add: list_all2_insort_key [of R f g, OF assms(1)])
qed

lemma stable_sort_tables_compares_names_only: "compares_names_only stable_sort_tables"
  unfolding compares_names_only_def stable_sort_tables_def
  by (intro allI impI list_all2_sort_key) auto

lemma sorts_tables_unique:
  assumes "sorts_tables sort_tables" and "distinct (map Table.name ts)"
  shows "sort_tables ts = stable_sort_tables ts"
proof -
  have "inj_on Table.name (set ts)"
    using assms(2) by (simp add: distinct_map)
  moreover have "sorted (map Table.name (sort_tables ts))" "mset ts = mset (sort_tables ts)"
    using assms(1) by (simp_all add: sorts_tables_def sorted_map Table_less_def not_less)
  ultimately have "sort_key Table.name ts = sort_tables ts"
    by (intro sort_key_inj_key_eq)
  then show ?thesis
    by (simp add: stable_sort_tables_def)
qed

lemma sorts_keys_unique:
  assumes "sorts_keys sort_keys"
    and "distinct (map (\<lambda>k. (key_type k, Key.name k)) ks)"
  shows "sort_keys ks = stable_sort_keys ks"
proof -
  let ?f = "\<lambda>k. (KeyType_value (key_type k), Key.name k)"
  have "inj_on (\<lambda>k. (key_type k, Key.name k)) (set ks)"
    using assms(2) by (simp add: distinct_map)
  then have "inj_on ?f (set ks)"
    by (auto simp: inj_on_def KeyType_value_inject)
  moreover have "sorted (map ?f (sort_keys ks))" "mset ks = mset (sort_keys ks)"
    using assms(1) by (simp_all add: sorts_keys_def sorted_map Key_less_order)
  ultimately have "sort_key ?f ks = sort_keys ks"
    by (intro sort_key_inj_key_eq)
  then show ?thesis
    by (simp add: stable_sort_keys_def)
qed

section \<open>Schema-match reflexivity\<close>

lemma check_columns_loop_refl: "check_columns_loop table cs cs = Inr ()"
  by (induction cs) (simp_all add: check_column_match_def)

lemma check_keys_loop_refl: "check_keys_loop columns_list table ks ks = Inr ()"
  by (induction ks) (simp_all add: check_key_match_def)

lemma check_table_match_refl: "check_table_match sort_keys columns_list t t = Inr ()"
  by (simp add: check_table_match_def check_columns_match_def check_columns_loop_refl
      check_primary_key_matches_def check_keys_match_def check_keys_loop_refl)

lemma check_tables_loop_refl:
  "check_tables_loop sort_keys columns_list ts ts ignore_tables only_tables = Inr ()"
proof (induction "length ts" arbitrary: ts rule: less_induct)
  case less
  show ?case
  proof (cases ts)
    case Nil
    then show ?thesis by simp
  next
    case (Cons t rest)
    have "length (skip_ignored_tables rest ignore_tables only_tables) < length ts"
      using length_skip_ignored_tables [of rest ignore_tables only_tables] Cons by simp
    then have "check_tables_loop sort_keys columns_list
        (skip_ignored_tables rest ignore_tables only_tables)
        (skip_ignored_tables rest ignore_tables only_tables) ignore_tables only_tables = Inr ()"
      by (rule less)
    with Cons show ?thesis
      by (simp add: check_table_match_refl)
  qed
qed

text \<open>
  C1. Schema-match reflexivity: for every database and empty \<open>ignore_tables\<close> and
  \<open>only_tables\<close> sets, matching the database against itself succeeds: no
  \<open>schema_mismatch\<close> is raised. It holds whatever the sorting procedures are: both
  copies of the table vector, and of each key vector, are sorted by the same procedure,
  so the walks compare every element with itself.
\<close>

theorem check_schema_match_reflexive:
  "check_schema_match sort_tables sort_keys columns_list db db {} {} = Inr ()"
  by (simp add: check_schema_match_def check_tables_match_def check_tables_loop_refl)

section \<open>Table-level mismatches\<close>

lemma skip_ignored_tables_none [simp]: "skip_ignored_tables ts {} {} = ts"
  by (cases ts) simp_all

lemma skip_ignored_tables_dropWhile:
  "skip_ignored_tables ts ign only =
   dropWhile (\<lambda>t. Table.name t \<in> ign \<or> (only \<noteq> {} \<and> Table.name t \<notin> only)) ts"
  by (induction ts) simp_all

lemma dropWhile_Nil_filter: "dropWhile P xs = [] \<Longrightarrow> filter (\<lambda>x. \<not> P x) xs = []"
  by (induction xs) (simp_all split: if_splits)

lemma dropWhile_Cons_filter:
  "dropWhile P xs = y # ys \<Longrightarrow>
   filter (\<lambda>x. \<not> P x) xs = y # filter (\<lambda>x. \<not> P x) ys \<and> length ys < length xs"
  by (induction xs) (auto split: if_splits)

lemma skip_ignored_tables_Nil:
  "skip_ignored_tables ts ign only = [] \<Longrightarrow> filter_tables ign only ts = []"
  unfolding skip_ignored_tables_dropWhile filter_tables_def
  by (rule dropWhile_Nil_filter)

lemma skip_ignored_tables_Cons:
  "skip_ignored_tables ts ign only = t # rest \<Longrightarrow>
   filter_tables ign only ts = t # filter_tables ign only rest \<and> length rest < length ts"
  unfolding skip_ignored_tables_dropWhile filter_tables_def
  by (rule dropWhile_Cons_filter)

text \<open>
  Skipping while walking the sorted vectors is walking the filtered vectors: the loop
  over the cursors left by \<open>skip_ignored_tables\<close> returns what the plain lockstep walk
  returns on the filtered lists.
\<close>

lemma check_tables_loop_filtered:
  "check_tables_loop sort_keys cl (skip_ignored_tables fs ign only) (skip_ignored_tables ts ign only) ign only =
   check_tables_loop sort_keys cl (filter_tables ign only fs) (filter_tables ign only ts) {} {}"
proof (induction "length fs" arbitrary: fs ts rule: less_induct)
  case less
  show ?case
  proof (cases "skip_ignored_tables fs ign only")
    case Nil
    note from_nil = Nil
    then have f: "filter_tables ign only fs = []"
      by (rule skip_ignored_tables_Nil)
    show ?thesis
    proof (cases "skip_ignored_tables ts ign only")
      case Nil
      then have "filter_tables ign only ts = []"
        by (rule skip_ignored_tables_Nil)
      with from_nil Nil f show ?thesis by simp
    next
      case (Cons t rest)
      then have "filter_tables ign only ts = t # filter_tables ign only rest"
        by (simp add: skip_ignored_tables_Cons)
      with from_nil Cons f show ?thesis by simp
    qed
  next
    case (Cons f frest)
    note from_cons = Cons
    then have f: "filter_tables ign only fs = f # filter_tables ign only frest"
      and shorter: "length frest < length fs"
      by (simp_all add: skip_ignored_tables_Cons)
    show ?thesis
    proof (cases "skip_ignored_tables ts ign only")
      case Nil
      then have "filter_tables ign only ts = []"
        by (rule skip_ignored_tables_Nil)
      with from_cons Nil f show ?thesis by simp
    next
      case (Cons t trest)
      then have t: "filter_tables ign only ts = t # filter_tables ign only trest"
        by (simp add: skip_ignored_tables_Cons)
      have "check_tables_loop sort_keys cl (skip_ignored_tables frest ign only)
              (skip_ignored_tables trest ign only) ign only =
            check_tables_loop sort_keys cl (filter_tables ign only frest)
              (filter_tables ign only trest) {} {}"
        using shorter by (rule less)
      with from_cons Cons f t show ?thesis
        by (simp split: sum.splits)
    qed
  qed
qed

lemma check_tables_match_filtered:
  "check_tables_match sort_tables sort_keys cl from_tables to_tables ign only =
   check_tables_loop sort_keys cl (filter_tables ign only (sort_tables from_tables))
     (filter_tables ign only (sort_tables to_tables)) {} {}"
  by (simp add: check_tables_match_def check_tables_loop_filtered)

lemma check_tables_loop_matched:
  "list_all2 (\<lambda>f t. Table.name f = Table.name t \<and> check_table_match sort_keys cl f t = Inr ())
     from_done to_done \<Longrightarrow>
   check_tables_loop sort_keys cl (from_done @ from_rest) (to_done @ to_rest) {} {} =
   check_tables_loop sort_keys cl from_rest to_rest {} {}"
  by (induction from_done to_done rule: list_all2_induct) simp_all

lemma filter_tables_sorted:
  assumes "sorts_tables sort_tables"
  shows "sorted_wrt (\<lambda>a b. \<not> Table_less b a) (filter_tables ign only (sort_tables ts))"
    and "mset (filter_tables ign only (sort_tables ts)) = mset (filter_tables ign only ts)"
  using assms by (simp_all add: sorts_tables_def filter_tables_def sorted_wrt_filter)

text \<open>
  C2. Table-level mismatch detection. \<open>check_tables_match\<close> sorts both table vectors and
  passes over the tables that \<open>ignore_tables\<close> and \<open>only_tables\<close> exclude; the tables it
  walks, \<open>from_done @ from_rest\<close> and \<open>to_done @ to_rest\<close>, are the filtered tables of each
  side in an order sorted by name. The walk has matched the tables \<open>from_done\<close> with
  \<open>to_done\<close> and stands at the heads of \<open>from_rest\<close> and \<open>to_rest\<close>. Then
  \<^item> if there is a from table, and the to side is exhausted or its table's name is
    greater, the result is "Missing table X", X the from table;
  \<^item> if both sides have a table and the to table's name is less, the result is
    "Extra table Y", Y the to table;
  \<^item> if the from side is exhausted and a to table remains, the result is
    "Extra table Y".
  This holds for every sorting procedure that meets \<open>sorts_tables\<close>, whatever it does
  with tables of the same name.
\<close>

theorem check_tables_match_missing_extra:
  assumes sorts: "sorts_tables sort_tables"
    and from_split: "filter_tables ignore_tables only_tables (sort_tables from_tables) =
      from_done @ from_rest"
    and to_split: "filter_tables ignore_tables only_tables (sort_tables to_tables) =
      to_done @ to_rest"
    and matched: "list_all2
      (\<lambda>f t. Table.name f = Table.name t \<and>
             check_table_match sort_keys columns_list f t = Inr ())
      from_done to_done"
  shows "sorted_wrt (\<lambda>a b. \<not> Table_less b a) (from_done @ from_rest) \<and>
         mset (from_done @ from_rest) = mset (filter_tables ignore_tables only_tables from_tables) \<and>
         sorted_wrt (\<lambda>a b. \<not> Table_less b a) (to_done @ to_rest) \<and>
         mset (to_done @ to_rest) = mset (filter_tables ignore_tables only_tables to_tables) \<and>
         (from_rest \<noteq> [] \<and>
            (to_rest = [] \<or> Table.name (hd from_rest) < Table.name (hd to_rest)) \<longrightarrow>
          check_tables_match sort_tables sort_keys columns_list from_tables to_tables
              ignore_tables only_tables =
            Inl (schema_mismatch (''Missing table '' @ Table.name (hd from_rest)))) \<and>
         (from_rest \<noteq> [] \<and> to_rest \<noteq> [] \<and>
            Table.name (hd to_rest) < Table.name (hd from_rest) \<longrightarrow>
          check_tables_match sort_tables sort_keys columns_list from_tables to_tables
              ignore_tables only_tables =
            Inl (schema_mismatch (''Extra table '' @ Table.name (hd to_rest)))) \<and>
         (from_rest = [] \<and> to_rest \<noteq> [] \<longrightarrow>
          check_tables_match sort_tables sort_keys columns_list from_tables to_tables
              ignore_tables only_tables =
            Inl (schema_mismatch (''Extra table '' @ Table.name (hd to_rest))))"
proof -
  let ?result = "check_tables_match sort_tables sort_keys columns_list from_tables to_tables
    ignore_tables only_tables"
  have walk: "?result = check_tables_loop sort_keys columns_list from_rest to_rest {} {}"
    using check_tables_loop_matched [OF matched, of from_rest to_rest]
    by (simp add: check_tables_match_filtered from_split to_split)
  have order: "sorted_wrt (\<lambda>a b. \<not> Table_less b a) (from_done @ from_rest)"
    "mset (from_done @ from_rest) = mset (filter_tables ignore_tables only_tables from_tables)"
    "sorted_wrt (\<lambda>a b. \<not> Table_less b a) (to_done @ to_rest)"
    "mset (to_done @ to_rest) = mset (filter_tables ignore_tables only_tables to_tables)"
    using filter_tables_sorted [OF sorts, of ignore_tables only_tables from_tables]
      filter_tables_sorted [OF sorts, of ignore_tables only_tables to_tables]
    by (simp_all only: from_split to_split)
  have missing: "?result = Inl (schema_mismatch (''Missing table '' @ Table.name (hd from_rest)))"
    if a: "from_rest \<noteq> [] \<and>
      (to_rest = [] \<or> Table.name (hd from_rest) < Table.name (hd to_rest))"
  proof -
    from a obtain f fs where f: "from_rest = f # fs"
      by (cases from_rest) auto
    show ?thesis
    proof (cases to_rest)
      case Nil
      with f walk show ?thesis
        by (simp add: report_schema_mismatch_def)
    next
      case (Cons t ts)
      with a f have "Table.name f < Table.name t" by simp
      with f Cons walk show ?thesis
        by (simp add: report_schema_mismatch_def)
    qed
  qed
  have extra: "?result = Inl (schema_mismatch (''Extra table '' @ Table.name (hd to_rest)))"
    if a: "from_rest \<noteq> [] \<and> to_rest \<noteq> [] \<and>
      Table.name (hd to_rest) < Table.name (hd from_rest)"
  proof -
    from a obtain f fs t ts where ft: "from_rest = f # fs" "to_rest = t # ts"
      by (cases from_rest; cases to_rest) auto
    with a have less: "Table.name t < Table.name f" by simp
    then have "\<not> Table.name f < Table.name t" by simp
    with ft less walk show ?thesis
      by (simp add: report_schema_mismatch_def)
  qed
  have left_over: "?result = Inl (schema_mismatch (''Extra table '' @ Table.name (hd to_rest)))"
    if a: "from_rest = [] \<and> to_rest \<noteq> []"
  proof -
    from a obtain t ts where "to_rest = t # ts"
      by (cases to_rest) auto
    with a walk show ?thesis
      by (simp add: report_schema_mismatch_def)
  qed
  from order missing extra left_over show ?thesis
    by blast
qed

text \<open>
  The spec's scenario (tables a, b against table a), a to table that sorts before the
  from table, and a to table left over once \<open>c\<close> is ignored, with insertion sort for
  \<open>std::sort\<close>.
\<close>

theorem check_tables_match_missing_extra_witness:
  "sorts_tables stable_sort_tables \<and>
   check_tables_match stable_sort_tables stable_sort_keys columns_list_names
     [Table_of ''a'', Table_of ''b''] [Table_of ''a''] {} {} =
     Inl (schema_mismatch ''Missing table b'') \<and>
   check_tables_match stable_sort_tables stable_sort_keys columns_list_names
     [Table_of ''b''] [Table_of ''a'', Table_of ''b''] {} {} =
     Inl (schema_mismatch ''Extra table a'') \<and>
   check_tables_match stable_sort_tables stable_sort_keys columns_list_names
     [Table_of ''a'', Table_of ''c''] [Table_of ''c'', Table_of ''b'', Table_of ''a''] {''c''} {} =
     Inl (schema_mismatch ''Extra table b'')"
proof (intro conjI)
  show "sorts_tables stable_sort_tables"
    by (rule stable_sort_tables_sorts)
next
  have same: "list_all2
      (\<lambda>f t. Table.name f = Table.name t \<and>
             check_table_match stable_sort_keys columns_list_names f t = Inr ())
      [Table_of ''a''] [Table_of ''a'']"
    by (simp add: check_table_match_refl)
  have "filter_tables {} {} (stable_sort_tables [Table_of ''a'', Table_of ''b'']) =
      [Table_of ''a''] @ [Table_of ''b'']"
    and "filter_tables {} {} (stable_sort_tables [Table_of ''a'']) = [Table_of ''a''] @ []"
    by (simp_all add: stable_sort_tables_def filter_tables_def Table_of_def)
  from check_tables_match_missing_extra [OF stable_sort_tables_sorts this same]
  show "check_tables_match stable_sort_tables stable_sort_keys columns_list_names
      [Table_of ''a'', Table_of ''b''] [Table_of ''a''] {} {} =
     Inl (schema_mismatch ''Missing table b'')"
    by (simp add: Table_of_def)
next
  have none: "list_all2
      (\<lambda>f t. Table.name f = Table.name t \<and>
             check_table_match stable_sort_keys columns_list_names f t = Inr ())
      [] []"
    by simp
  have "filter_tables {} {} (stable_sort_tables [Table_of ''b'']) = [] @ [Table_of ''b'']"
    and "filter_tables {} {} (stable_sort_tables [Table_of ''a'', Table_of ''b'']) =
      [] @ [Table_of ''a'', Table_of ''b'']"
    by (simp_all add: stable_sort_tables_def filter_tables_def Table_of_def)
  from check_tables_match_missing_extra [OF stable_sort_tables_sorts this none]
  show "check_tables_match stable_sort_tables stable_sort_keys columns_list_names
      [Table_of ''b''] [Table_of ''a'', Table_of ''b''] {} {} =
     Inl (schema_mismatch ''Extra table a'')"
    by (simp add: Table_of_def)
next
  have same: "list_all2
      (\<lambda>f t. Table.name f = Table.name t \<and>
             check_table_match stable_sort_keys columns_list_names f t = Inr ())
      [Table_of ''a''] [Table_of ''a'']"
    by (simp add: check_table_match_refl)
  have "filter_tables {''c''} {} (stable_sort_tables [Table_of ''a'', Table_of ''c'']) =
      [Table_of ''a''] @ []"
    and "filter_tables {''c''} {} (stable_sort_tables
        [Table_of ''c'', Table_of ''b'', Table_of ''a'']) =
      [Table_of ''a''] @ [Table_of ''b'']"
    by (simp_all add: stable_sort_tables_def filter_tables_def Table_of_def)
  from check_tables_match_missing_extra [OF stable_sort_tables_sorts this same]
  show "check_tables_match stable_sort_tables stable_sort_keys columns_list_names
      [Table_of ''a'', Table_of ''c''] [Table_of ''c'', Table_of ''b'', Table_of ''a''] {''c''} {} =
     Inl (schema_mismatch ''Extra table b'')"
    by (simp add: Table_of_def)
qed

section \<open>Column matching\<close>

lemma check_columns_loop_same_names:
  "map Column.name from_done = map Column.name to_done \<Longrightarrow>
   check_columns_loop table (from_done @ from_rest) (to_done @ to_rest) =
   check_columns_loop table from_rest to_rest"
proof (induction from_done arbitrary: to_done)
  case Nil
  then show ?case by simp
next
  case (Cons f fs)
  then obtain t ts where to_done: "to_done = t # ts"
    by (cases to_done) auto
  with Cons.prems have "Column.name t = Column.name f" "map Column.name fs = map Column.name ts"
    by auto
  with Cons.IH [of ts] to_done show ?case
    by (simp add: check_column_match_def)
qed

lemma find_name_in:
  "n \<in> Column.name ` set cs \<Longrightarrow> find (\<lambda>obj. Column.name obj = n) cs \<noteq> None"
  by (auto simp: find_None_iff)

text \<open>
  C3. Misordered-column detection: when the walk has matched the columns before the two
  cursors, the names at the cursors differ, the from-name appears later in the to list
  and the to-name appears later in the from list, \<open>check_columns_match\<close> fails with
  "Misordered column X on table T, should have Y first", X the from-column and Y the
  to-column.
\<close>

theorem check_columns_match_misordered:
  assumes matched: "map Column.name from_done = map Column.name to_done"
    and differ: "Column.name from_column \<noteq> Column.name to_column"
    and from_later: "Column.name from_column \<in> Column.name ` set to_rest"
    and to_later: "Column.name to_column \<in> Column.name ` set from_rest"
  shows "check_columns_match table (from_done @ from_column # from_rest)
           (to_done @ to_column # to_rest) =
         Inl (schema_mismatch
           (''Misordered column '' @ Column.name from_column @ '' on table '' @
            Table.name table @ '', should have '' @ Column.name to_column @ '' first''))"
proof -
  have in_to: "find (\<lambda>obj. Column.name obj = Column.name from_column) (to_column # to_rest) \<noteq> None"
    using from_later by (intro find_name_in) simp
  have in_from: "find (\<lambda>obj. Column.name obj = Column.name to_column) (from_column # from_rest) \<noteq> None"
    using to_later by (intro find_name_in) simp
  have "check_columns_match table (from_done @ from_column # from_rest)
          (to_done @ to_column # to_rest) =
        check_columns_loop table (from_column # from_rest) (to_column # to_rest)"
    unfolding check_columns_match_def using matched by (rule check_columns_loop_same_names)
  also have "\<dots> = Inl (schema_mismatch
           (''Misordered column '' @ Column.name from_column @ '' on table '' @
            Table.name table @ '', should have '' @ Column.name to_column @ '' first''))"
    using differ in_to in_from
    by (simp add: report_schema_mismatch_def del: find.simps)
  finally show ?thesis .
qed

text \<open>The spec's scenario: the columns x, y of T against the columns y, x.\<close>

theorem check_columns_match_misordered_witness:
  "map Column.name [] = map Column.name [] \<and>
   Column.name column_x \<noteq> Column.name column_y \<and>
   Column.name column_x \<in> Column.name ` set [column_x] \<and>
   Column.name column_y \<in> Column.name ` set [column_y] \<and>
   check_columns_match table_T_from [column_x, column_y] [column_y, column_x] =
     Inl (schema_mismatch ''Misordered column x on table T, should have y first'')"
  using check_columns_match_misordered
    [of "[]" "[]" column_x column_y "[column_x]" "[column_y]" table_T_from]
  by (simp add: column_x_def column_y_def Column_of_def table_T_from_def Table_of_def)

section \<open>Table matching checks column names only\<close>

lemma Key_eq_iff: "Key_eq a b \<longleftrightarrow> a = b"
  by (cases a, cases b) (auto simp: Key_eq_def)

lemma list_all2_Key_eq: "list_all2 Key_eq ks ks' \<longleftrightarrow> ks = ks'"
proof -
  have "Key_eq = (=)"
    by (intro ext) (simp add: Key_eq_iff)
  then show ?thesis
    by (simp add: list.rel_eq)
qed

lemma check_columns_match_same_names:
  assumes "map Column.name from_columns = map Column.name to_columns"
  shows "check_columns_match table from_columns to_columns = Inr ()"
  using check_columns_loop_same_names [OF assms, of table "[]" "[]"]
  by (simp add: check_columns_match_def)

lemma check_table_match_same_names:
  assumes "map Column.name (Table.columns from_table) = map Column.name (Table.columns to_table)"
    and "primary_key_columns from_table = primary_key_columns to_table"
    and "keys from_table = keys to_table"
  shows "check_table_match sort_keys columns_list from_table to_table = Inr ()"
  using assms
  by (simp add: check_table_match_def check_columns_match_same_names
      check_primary_key_matches_def check_keys_match_def check_keys_loop_refl)

text \<open>
  C4. Column-match leniency: two tables with the same column names in the same order,
  equal \<open>primary_key_columns\<close> and equal keys pass \<open>check_table_match\<close>, whatever the
  other attributes of the columns are (\<open>check_column_match\<close> checks nothing, and the
  walk compares names). The tables' own names are not compared either, so the
  statement needs no hypothesis on them; and it holds whatever procedure sorts the
  keys, the two key vectors being equal.
\<close>

theorem check_table_match_lenient:
  assumes names: "map Column.name (Table.columns from_table) = map Column.name (Table.columns to_table)"
    and primary: "primary_key_columns from_table = primary_key_columns to_table"
    and same_keys: "list_all2 Key_eq (keys from_table) (keys to_table)"
  shows "check_table_match sort_keys columns_list from_table to_table = Inr ()"
proof -
  from same_keys have "keys from_table = keys to_table"
    by (simp add: list_all2_Key_eq)
  with names primary show ?thesis
    by (rule check_table_match_same_names)
qed

text \<open>
  The two \<open>orders\<close> tables match, although their \<open>total\<close> columns differ in every
  attribute that \<open>Column::operator ==\<close> compares but the name.
\<close>

theorem check_table_match_lenient_witness:
  "map Column.name (Table.columns orders_from) = map Column.name (Table.columns orders_to) \<and>
   primary_key_columns orders_from = primary_key_columns orders_to \<and>
   list_all2 Key_eq (keys orders_from) (keys orders_to) \<and>
   \<not> Column_eq total_from total_to \<and>
   column_type total_from \<noteq> column_type total_to \<and>
   nullable total_from \<noteq> nullable total_to \<and>
   Column.size total_from \<noteq> Column.size total_to \<and>
   scale total_from \<noteq> scale total_to \<and>
   default_type total_from \<noteq> default_type total_to \<and>
   Column.default_value total_from \<noteq> Column.default_value total_to \<and>
   flags total_from \<noteq> flags total_to \<and>
   type_restriction total_from \<noteq> type_restriction total_to \<and>
   reference_system total_from \<noteq> reference_system total_to \<and>
   enumeration_values total_from \<noteq> enumeration_values total_to \<and>
   check_table_match stable_sort_keys columns_list_names orders_from orders_to = Inr ()"
  using check_table_match_lenient [of orders_from orders_to stable_sort_keys columns_list_names]
  by (simp add: orders_from_def orders_to_def total_from_def total_to_def Column_of_def
      Table_of_def Key_of_def Key_eq_def Column_eq_def nothing_def mysql_timestamp_def
      ColumnTypes_defs)

section \<open>Columns of unknown type\<close>

lemma same_table_but_db_type_def_name:
  "same_table_but_db_type_def t t' \<Longrightarrow> Table.name t = Table.name t'"
  by (cases t; cases t') (simp add: same_table_but_db_type_def_def)

lemma same_column_but_db_type_def_name:
  "same_column_but_db_type_def c c' \<Longrightarrow> Column.name c = Column.name c'"
  by (cases c; cases c') (simp add: same_column_but_db_type_def_def)

lemma same_columns_but_db_type_def_names:
  "list_all2 same_column_but_db_type_def cs cs' \<Longrightarrow>
   map Column.name cs = map Column.name cs'"
  by (induction cs cs' rule: list_all2_induct)
    (simp_all add: same_column_but_db_type_def_name)

lemma check_table_match_but_db_type_def:
  assumes "same_table_but_db_type_def t t'"
  shows "check_table_match sort_keys cl t t' = Inr ()"
proof (rule check_table_match_same_names)
  from assms show "map Column.name (Table.columns t) = map Column.name (Table.columns t')"
    by (simp add: same_table_but_db_type_def_def same_columns_but_db_type_def_names)
  from assms show "primary_key_columns t = primary_key_columns t'"
    by (cases t; cases t') (simp add: same_table_but_db_type_def_def)
  from assms show "keys t = keys t'"
    by (cases t; cases t') (simp add: same_table_but_db_type_def_def)
qed

lemma skip_ignored_tables_but_db_type_def:
  "list_all2 same_table_but_db_type_def ts ts' \<Longrightarrow>
   list_all2 same_table_but_db_type_def
     (skip_ignored_tables ts ign only) (skip_ignored_tables ts' ign only)"
proof (induction ts ts' rule: list_all2_induct)
  case Nil
  show ?case by simp
next
  case (Cons t ts t' ts')
  from Cons.hyps(1) have "Table.name t = Table.name t'"
    by (rule same_table_but_db_type_def_name)
  with Cons show ?case by simp
qed

lemma check_tables_loop_but_db_type_def:
  "list_all2 same_table_but_db_type_def ts ts' \<Longrightarrow>
   check_tables_loop sort_keys cl ts ts' ign only = Inr ()"
proof (induction "length ts" arbitrary: ts ts' rule: less_induct)
  case less
  show ?case
  proof (cases ts)
    case Nil
    with less.prems show ?thesis by simp
  next
    case (Cons t rest)
    with less.prems obtain t' rest' where ts': "ts' = t' # rest'"
      and head: "same_table_but_db_type_def t t'"
      and tail: "list_all2 same_table_but_db_type_def rest rest'"
      by (cases ts') auto
    have "length (skip_ignored_tables rest ign only) < length ts"
      using length_skip_ignored_tables [of rest ign only] Cons by simp
    then have "check_tables_loop sort_keys cl (skip_ignored_tables rest ign only)
        (skip_ignored_tables rest' ign only) ign only = Inr ()"
      using skip_ignored_tables_but_db_type_def [OF tail] by (rule less)
    moreover have "Table.name t = Table.name t'"
      using head by (rule same_table_but_db_type_def_name)
    ultimately show ?thesis
      using Cons ts' by (simp add: check_table_match_but_db_type_def [OF head])
  qed
qed

text \<open>
  C5, as the code has it. \<open>db_type_def\<close> is not compared: two databases that are
  identical except that some columns (of type \<open>UNKNOWN\<close> or any other) carry different
  \<open>db_type_def\<close> strings on the two sides match, under any filter sets. The sorting
  procedure is any that compares names only, as \<open>std::sort\<close> with \<open>Table::operator <\<close>
  does.
\<close>

theorem check_schema_match_ignores_db_type_def:
  assumes same: "same_database_but_db_type_def from_database to_database"
    and names_only: "compares_names_only sort_tables"
  shows "check_schema_match sort_tables sort_keys columns_list from_database to_database
           ignore_tables only_tables = Inr ()"
proof -
  have "list_all2 same_table_but_db_type_def
      (sort_tables (tables from_database)) (sort_tables (tables to_database))"
    using names_only same same_table_but_db_type_def_name
    unfolding compares_names_only_def same_database_but_db_type_def_def
    by blast
  then have "list_all2 same_table_but_db_type_def
      (skip_ignored_tables (sort_tables (tables from_database)) ignore_tables only_tables)
      (skip_ignored_tables (sort_tables (tables to_database)) ignore_tables only_tables)"
    by (rule skip_ignored_tables_but_db_type_def)
  then show ?thesis
    unfolding check_schema_match_def check_tables_match_def
    by (rule check_tables_loop_but_db_type_def)
qed

text \<open>
  The two atlases: the first holds the same column in both tables, the second changes
  its \<open>db_type_def\<close> in one table only.
\<close>

theorem check_schema_match_ignores_db_type_def_witness:
  "same_database_but_db_type_def atlas_geography atlas_mixed \<and>
   compares_names_only stable_sort_tables \<and>
   atlas_geography \<noteq> atlas_mixed \<and>
   check_schema_match stable_sort_tables stable_sort_keys columns_list_names
     atlas_geography atlas_mixed {} {} = Inr ()"
proof -
  have same: "same_database_but_db_type_def atlas_geography atlas_mixed"
    by (simp add: same_database_but_db_type_def_def same_table_but_db_type_def_def
        same_column_but_db_type_def_def atlas_geography_def atlas_mixed_def
        area_hstore_def Table_of_def)
  have differ: "atlas_geography \<noteq> atlas_mixed"
    by (simp add: atlas_geography_def atlas_mixed_def area_hstore_def area_geography_def
        Column_of_def Table_of_def)
  from check_schema_match_ignores_db_type_def
    [OF same stable_sort_tables_compares_names_only]
    same stable_sort_tables_compares_names_only differ
  show ?thesis by simp
qed

text \<open>
  As the claim states it, C5 fails: the two \<open>places\<close> databases differ only in the
  \<open>db_type_def\<close> of a column of type \<open>UNKNOWN\<close>, and they match.
\<close>

theorem check_schema_match_unknown_counterexample:
  "column_type area_geography = UNKN \<and> column_type area_hstore = UNKN \<and>
   db_type_def area_geography \<noteq> db_type_def area_hstore \<and>
   check_schema_match stable_sort_tables stable_sort_keys columns_list_names
     places_geography places_hstore {} {} = Inr ()"
  by (simp add: check_schema_match_def check_tables_match_def stable_sort_tables_def
      places_geography_def places_hstore_def area_geography_def area_hstore_def
      Table_of_def Column_of_def check_table_match_def check_columns_match_def
      check_column_match_def check_primary_key_matches_def check_keys_match_def
      stable_sort_keys_def)

section \<open>The protocol version sent by the to endpoint\<close>



section \<open>Normalising a peer's schema for PostgreSQL\<close>

lemma convert_unsupported_column_fields:
  "convert_unsupported_column c =
     c\<lparr>column_type := (if column_type c = UINT then SINT else column_type c),
       Column.size :=
         (if (column_type c = UINT \<or> column_type c = SINT) \<and> Column.size c = 1 then 2
          else if (column_type c = UINT \<or> column_type c = SINT) \<and> Column.size c = 3 then 4
          else if column_type c = TEXT \<or> column_type c = BLOB then 0
          else Column.size c)\<rparr>"
  by (cases c) (simp add: convert_unsupported_column_def Let_def ColumnTypes_defs)

lemma convert_unsupported_key_fields:
  "convert_unsupported_key k = k\<lparr>Key.name := take 63 (Key.name k)\<rparr>"
  by (cases k) (simp add: convert_unsupported_key_def)

text \<open>
  C7. The normalisation pass rewrites, in every column of every table, the type
  \<open>INT UNSIGNED\<close> to \<open>INT\<close>, then the size of a 1-byte \<open>INT\<close> to 2 and of a 3-byte \<open>INT\<close> to 4
  (an unsigned column has become an \<open>INT\<close> by then, so it is widened too), and the size
  of a \<open>TEXT\<close> or \<open>BLOB\<close> to 0; it cuts every key name to its first 63 bytes, which
  leaves a shorter name as it is. Every other field of the database, its tables, their
  columns and their keys is unchanged, and so are the number and order of tables,
  columns and keys.
\<close>

theorem convert_unsupported_database_schema_fields:
  "convert_unsupported_database_schema database =
     database\<lparr>tables :=
       map (\<lambda>table. table
         \<lparr>Table.columns :=
            map (\<lambda>c. c
              \<lparr>column_type := (if column_type c = UINT then SINT else column_type c),
               Column.size :=
                 (if (column_type c = UINT \<or> column_type c = SINT) \<and> Column.size c = 1 then 2
                  else if (column_type c = UINT \<or> column_type c = SINT) \<and> Column.size c = 3
                    then 4
                  else if column_type c = TEXT \<or> column_type c = BLOB then 0
                  else Column.size c)\<rparr>)
              (Table.columns table),
          keys := map (\<lambda>k. k\<lparr>Key.name := take 63 (Key.name k)\<rparr>) (keys table)\<rparr>)
         (tables database)\<rparr>"
proof -
  have "convert_unsupported_column =
      (\<lambda>c. c\<lparr>column_type := (if column_type c = UINT then SINT else column_type c),
         Column.size :=
           (if (column_type c = UINT \<or> column_type c = SINT) \<and> Column.size c = 1 then 2
            else if (column_type c = UINT \<or> column_type c = SINT) \<and> Column.size c = 3 then 4
            else if column_type c = TEXT \<or> column_type c = BLOB then 0
            else Column.size c)\<rparr>)"
    by (intro ext) (rule convert_unsupported_column_fields)
  moreover have "convert_unsupported_key = (\<lambda>k. k\<lparr>Key.name := take 63 (Key.name k)\<rparr>)"
    by (intro ext) (rule convert_unsupported_key_fields)
  ultimately have "convert_unsupported_table =
      (\<lambda>table. table
         \<lparr>Table.columns :=
            map (\<lambda>c. c
              \<lparr>column_type := (if column_type c = UINT then SINT else column_type c),
               Column.size :=
                 (if (column_type c = UINT \<or> column_type c = SINT) \<and> Column.size c = 1 then 2
                  else if (column_type c = UINT \<or> column_type c = SINT) \<and> Column.size c = 3
                    then 4
                  else if column_type c = TEXT \<or> column_type c = BLOB then 0
                  else Column.size c)\<rparr>)
              (Table.columns table),
          keys := map (\<lambda>k. k\<lparr>Key.name := take 63 (Key.name k)\<rparr>) (keys table)\<rparr>)"
    by (intro ext) (simp only: convert_unsupported_table_def)
  then show ?thesis
    by (simp only: convert_unsupported_database_schema_def)
qed

lemma convert_unsupported_column_examples:
  "convert_unsupported_column (Column_of ''n'' True no_default [] UINT 1 0 nothing [] [] []) =
     Column_of ''n'' True no_default [] SINT 2 0 nothing [] [] []"
  "convert_unsupported_column (Column_of ''n'' True no_default [] SINT 3 0 nothing [] [] []) =
     Column_of ''n'' True no_default [] SINT 4 0 nothing [] [] []"
  "convert_unsupported_column (Column_of ''n'' True no_default [] TEXT 255 0 nothing [] [] []) =
     Column_of ''n'' True no_default [] TEXT 0 0 nothing [] [] []"
  "convert_unsupported_column (Column_of ''n'' True no_default [] VCHR 255 0 nothing [] [] []) =
     Column_of ''n'' True no_default [] VCHR 255 0 nothing [] [] []"
  by (simp_all add: convert_unsupported_column_fields Column_of_def ColumnTypes_defs)

lemma convert_unsupported_key_example:
  "convert_unsupported_key (Key_of (replicate 70 CHR ''k'') unique_key) =
     Key_of (replicate 63 CHR ''k'') unique_key"
  by (simp add: convert_unsupported_key_fields Key_of_def)

section \<open>Column defaults\<close>

text \<open>
  C8 asks for the corrected rendering of an expression default: " DEFAULT " followed by
  the default value, and no error. The code as written raises: for a column
  \<open>created_at\<close> of type \<open>DATETIME\<close> with the default expression \<open>CURRENT_TIMESTAMP\<close>,
  \<open>column_default\<close> throws "Don't know how to express default of created\_at (...)".
\<close>

theorem column_default_expression_raises:
  "column_default escape_string_value append_escaped_column_value_to to_string
     (Table_of ''events'') created_at =
   Inl (runtime_error
     (''Don't know how to express default of created_at ('' @
      to_string default_expression @ '')'')) \<and>
   column_default escape_string_value append_escaped_column_value_to to_string
     (Table_of ''events'') created_at \<noteq>
   Inr ('' DEFAULT '' @ Column.default_value created_at)"
  by (simp add: column_default_def created_at_def Column_of_def)

section \<open>Key matching\<close>










section \<open>Table equality\<close>

text \<open>
  C10. \<open>Table::operator ==\<close> looks at \<open>primary_key_columns\<close> only for explicit primary
  keys: when neither table has \<open>primary_key_type == explicit_primary_key\<close>, equal names,
  equal columns and equal keys make the tables equal whatever their
  \<open>primary_key_columns\<close> are; when both have an explicit primary key, the tables are
  equal exactly when moreover the \<open>primary_key_columns\<close> are.
\<close>

theorem Table_eq_surrogate_primary_key:
  assumes "Table.name a = Table.name b"
    and "list_all2 Column_eq (Table.columns a) (Table.columns b)"
    and "list_all2 Key_eq (keys a) (keys b)"
  shows "(primary_key_type a \<noteq> explicit_primary_key \<and>
          primary_key_type b \<noteq> explicit_primary_key \<longrightarrow> Table_eq a b) \<and>
         (primary_key_type a = explicit_primary_key \<and>
          primary_key_type b = explicit_primary_key \<longrightarrow>
            (Table_eq a b \<longleftrightarrow> primary_key_columns a = primary_key_columns b))"
proof (intro conjI impI)
  assume "primary_key_type a \<noteq> explicit_primary_key \<and>
          primary_key_type b \<noteq> explicit_primary_key"
  then have "same_primary_key_as a b"
    by (simp add: same_primary_key_as_def)
  with assms show "Table_eq a b"
    by (simp add: Table_eq_def)
next
  assume "primary_key_type a = explicit_primary_key \<and>
          primary_key_type b = explicit_primary_key"
  then have "same_primary_key_as a b \<longleftrightarrow> primary_key_columns a = primary_key_columns b"
    by (auto simp: same_primary_key_as_def Let_def)
  with assms show "Table_eq a b \<longleftrightarrow> primary_key_columns a = primary_key_columns b"
    by (simp add: Table_eq_def)
qed

text \<open>
  The two \<open>events\<close> tables are equal although their primary key columns differ; with
  both primary keys made explicit they are not.
\<close>

theorem Table_eq_surrogate_primary_key_witness:
  "Table.name surrogate_a = Table.name surrogate_b \<and>
   list_all2 Column_eq (Table.columns surrogate_a) (Table.columns surrogate_b) \<and>
   list_all2 Key_eq (keys surrogate_a) (keys surrogate_b) \<and>
   primary_key_type surrogate_a \<noteq> explicit_primary_key \<and>
   primary_key_type surrogate_b \<noteq> explicit_primary_key \<and>
   primary_key_columns surrogate_a \<noteq> primary_key_columns surrogate_b \<and>
   Table_eq surrogate_a surrogate_b \<and>
   \<not> Table_eq (surrogate_a\<lparr>primary_key_type := explicit_primary_key\<rparr>)
        (surrogate_b\<lparr>primary_key_type := explicit_primary_key\<rparr>)"
  using Table_eq_surrogate_primary_key [of surrogate_a surrogate_b]
    Table_eq_surrogate_primary_key
      [of "surrogate_a\<lparr>primary_key_type := explicit_primary_key\<rparr>"
          "surrogate_b\<lparr>primary_key_type := explicit_primary_key\<rparr>"]
  by (simp add: surrogate_a_def surrogate_b_def Table_of_def Column_eq_def)

end
